theory Spec2Isabelle
  imports Complex_Main "HOL-Library.Word"
begin

section \<open>The L-system rewriter and turtle interpreter of exyzzy/lsys\<close>

text \<open>
  The development embeds the package \<^verbatim>\<open>lsys\<close> (the rewriter \<^verbatim>\<open>LSys\<close> and the turtle
  interpreter \<^verbatim>\<open>DrawLSys\<close>) and the package \<^verbatim>\<open>drawing\<close> (paths of points, the generic
  \<^verbatim>\<open>Traverse\<close>, and the transforms built on it).

  Conventions of the embedding:
  \<^item> A Go \<^verbatim>\<open>string\<close> is ranged over rune by rune (\<^verbatim>\<open>for _, v := range s\<close>); a string is
    modelled as the list of its runes, a rune being a \<^typ>\<open>char\<close>.  For the one-byte
    alphabet of L-system symbols a rune and a byte are the same thing.
  \<^item> \<^verbatim>\<open>float64\<close> is modelled by \<^typ>\<open>real\<close>: the arithmetic is exact, there is no
    rounding, no NaN and no infinity.  The statements below do not depend on this: they
    are about which values are copied, counted or left in place, and where coordinates
    are computed at concrete inputs they are \<open>cos 0\<close>, \<open>sin 0\<close> and sums, differences and
    products of small integers, which \<^verbatim>\<open>float64\<close> computes exactly.  What the
    transforms do to coordinates up to rounding is not stated here.
  \<^item> Slices are lists; \<^verbatim>\<open>append\<close> adds at the end.  The drawings built by \<^verbatim>\<open>MoveTo\<close> and
    \<^verbatim>\<open>LineTo\<close> never share a backing array between two paths, so updating in place is
    modelled by returning the updated value.
  \<^item> A Go \<^verbatim>\<open>error\<close> value and a run-time panic are both values of the type \<open>error\<close>
    below; a function that can fail returns \<open>error + 'a\<close>, with \<open>Inl\<close> for the failure.
\<close>

subsection \<open>Errors\<close>

datatype error =
    ErrorString string  \<comment> \<open>\<^verbatim>\<open>errors.New(msg)\<close>\<close>
  | IndexOutOfRange     \<comment> \<open>run-time panic: index out of range\<close>

subsection \<open>Package lsys: the rewriter\<close>

type_synonym rules = "string \<rightharpoonup> string"

text \<open>The first case of the \<^verbatim>\<open>switch\<close>: \<^verbatim>\<open>case '-', '+', '[', ']'\<close>.\<close>

definition control :: "char \<Rightarrow> bool" where
  "control v \<longleftrightarrow> v = CHR ''-'' \<or> v = CHR ''+'' \<or> v = CHR ''['' \<or> v = CHR '']''"

text \<open>
  The body of the outer loop: one scan of \<open>s\<close>, with the string \<open>ns\<close> built so far
  (\<^verbatim>\<open>ns := ""\<close> at the start of a pass).  The early \<^verbatim>\<open>return\<close> leaves \<^verbatim>\<open>result\<close> at its
  zero value and sets \<^verbatim>\<open>err\<close>.
\<close>

fun LSys_scan :: "rules \<Rightarrow> string \<Rightarrow> string \<Rightarrow> error + string" where
  "LSys_scan rules ns [] = Inr ns"
| "LSys_scan rules ns (v # s) =
     (if control v then LSys_scan rules (ns @ [v]) s
      else if v = CHR '' '' then LSys_scan rules ns s
      else (case rules [v] of
              None \<Rightarrow> Inl (ErrorString (''no rule for: '' @ [v]))
            | Some r \<Rightarrow> LSys_scan rules (ns @ r) s))"

text \<open>The outer loop \<^verbatim>\<open>for i := 0; i < level; i++\<close>, from the counter \<open>i\<close> on.\<close>

function LSys_loop :: "rules \<Rightarrow> int \<Rightarrow> int \<Rightarrow> string \<Rightarrow> error + string" where
  "LSys_loop rules level i s =
     (if i < level then
        (case LSys_scan rules [] s of
           Inl err \<Rightarrow> Inl err
         | Inr ns \<Rightarrow> LSys_loop rules level (i + 1) ns)
      else Inr s)"
  by pat_completeness auto
termination
  by (relation "measure (\<lambda>(rules, level, i, s). nat (level - i))") auto

declare LSys_loop.simps [simp del]

definition LSys :: "string \<Rightarrow> rules \<Rightarrow> int \<Rightarrow> error + string" where
  "LSys axiom rules level = LSys_loop rules level 0 axiom"

subsection \<open>Package drawing: the data\<close>

record FPoint =
  X :: real
  Y :: real

datatype RGBA = RGBA "8 word" "8 word" "8 word" "8 word"

record Path =
  Points :: "FPoint list"
  Color :: RGBA

record Drawing =
  Paths :: "Path list"

record FRect =
  Min_pt :: FPoint
  Max_pt :: FPoint

text \<open>\<^verbatim>\<open>MoveTo\<close> starts a new path holding the one point.\<close>

definition MoveTo :: "FPoint \<Rightarrow> RGBA \<Rightarrow> Drawing \<Rightarrow> Drawing" where
  "MoveTo point color drawing =
     drawing\<lparr>Paths := Paths drawing @ [\<lparr>Points = [point], Color = color\<rparr>]\<rparr>"

text \<open>
  \<^verbatim>\<open>LineTo\<close> appends to the last path; \<^verbatim>\<open>drawing.Paths[last]\<close> with \<^verbatim>\<open>last = -1\<close> panics.
\<close>

definition LineTo :: "FPoint \<Rightarrow> Drawing \<Rightarrow> error + Drawing" where
  "LineTo point drawing =
     (let last = int (length (Paths drawing)) - 1 in
      if last < 0 then Inl IndexOutOfRange
      else Inr (drawing\<lparr>Paths := (Paths drawing)
             [nat last := (Paths drawing ! nat last)
                \<lparr>Points := Points (Paths drawing ! nat last) @ [point]\<rparr>]\<rparr>))"

subsection \<open>Package drawing: Traverse and the transforms\<close>

text \<open>
  \<^verbatim>\<open>Traverse(fpa, fpt, s...)\<close> visits every path and then every point of it, by index.
  The functions receive a pointer to the path or point and the pointers \<open>s\<close>, and may
  write through all of them; so a point function maps the pair of the point and the
  context to the new pair.  A \<^verbatim>\<open>nil\<close> function is \<open>None\<close>.
\<close>

type_synonym ('a, 's) fn = "('a \<times> 's \<Rightarrow> 'a \<times> 's) option"

fun Traverse_points :: "(FPoint, 's) fn \<Rightarrow> FPoint list \<Rightarrow> 's \<Rightarrow> FPoint list \<times> 's" where
  "Traverse_points fpt [] s = ([], s)"
| "Traverse_points fpt (q # qs) s =
     (case fpt of
        None \<Rightarrow> (case Traverse_points fpt qs s of (qs', s') \<Rightarrow> (q # qs', s'))
      | Some f \<Rightarrow>
          (case f (q, s) of (q', s') \<Rightarrow>
             (case Traverse_points fpt qs s' of (qs', s'') \<Rightarrow> (q' # qs', s''))))"

fun Traverse_paths :: "(Path, 's) fn \<Rightarrow> (FPoint, 's) fn \<Rightarrow> Path list \<Rightarrow> 's \<Rightarrow> Path list \<times> 's" where
  "Traverse_paths fpa fpt [] s = ([], s)"
| "Traverse_paths fpa fpt (pa # pas) s =
     (case (case fpa of None \<Rightarrow> (pa, s) | Some g \<Rightarrow> g (pa, s)) of (pa', s') \<Rightarrow>
        (case Traverse_points fpt (Points pa') s' of (qs', s'') \<Rightarrow>
           (case Traverse_paths fpa fpt pas s'' of (pas', s''') \<Rightarrow>
              (pa'\<lparr>Points := qs'\<rparr> # pas', s'''))))"

definition Traverse :: "(Path, 's) fn \<Rightarrow> (FPoint, 's) fn \<Rightarrow> 's \<Rightarrow> Drawing \<Rightarrow> Drawing \<times> 's" where
  "Traverse fpa fpt s drawing =
     (case Traverse_paths fpa fpt (Paths drawing) s of
        (pas', s') \<Rightarrow> (drawing\<lparr>Paths := pas'\<rparr>, s'))"

definition BoundsPt :: "FPoint \<times> FRect \<Rightarrow> FPoint \<times> FRect" where
  "BoundsPt = (\<lambda>(q, pb).
     (q, \<lparr>Min_pt = \<lparr>X = min (X (Min_pt pb)) (X q), Y = min (Y (Min_pt pb)) (Y q)\<rparr>,
          Max_pt = \<lparr>X = max (X (Max_pt pb)) (X q), Y = max (Y (Max_pt pb)) (Y q)\<rparr>\<rparr>))"

text \<open>
  \<^verbatim>\<open>Bounds\<close> reads \<^verbatim>\<open>drawing.Paths[0].Points[0]\<close> first: with no path, or with no point in
  the first path, the index is out of range and the call panics.
\<close>

definition Bounds :: "Drawing \<Rightarrow> error + FRect" where
  "Bounds drawing =
     (case Paths drawing of
        [] \<Rightarrow> Inl IndexOutOfRange
      | pa # _ \<Rightarrow>
          (case Points pa of
             [] \<Rightarrow> Inl IndexOutOfRange
           | q # _ \<Rightarrow>
               Inr (snd (Traverse None (Some BoundsPt)
                      \<lparr>Min_pt = \<lparr>X = X q, Y = Y q\<rparr>, Max_pt = \<lparr>X = X q, Y = Y q\<rparr>\<rparr> drawing))))"

definition TranslatePt :: "FPoint \<times> FPoint \<Rightarrow> FPoint \<times> FPoint" where
  "TranslatePt = (\<lambda>(q, delta). (\<lparr>X = X q + X delta, Y = Y q + Y delta\<rparr>, delta))"

definition Translate :: "FPoint \<Rightarrow> Drawing \<Rightarrow> Drawing" where
  "Translate delta drawing = fst (Traverse None (Some TranslatePt) delta drawing)"

definition ScalePt :: "FPoint \<times> real \<Rightarrow> FPoint \<times> real" where
  "ScalePt = (\<lambda>(q, scalar). (\<lparr>X = X q * scalar, Y = Y q * scalar\<rparr>, scalar))"

definition Scale :: "real \<Rightarrow> Drawing \<Rightarrow> Drawing" where
  "Scale scalar drawing = fst (Traverse None (Some ScalePt) scalar drawing)"

definition VFlipPt :: "FPoint \<times> FRect \<Rightarrow> FPoint \<times> FRect" where
  "VFlipPt = (\<lambda>(q, db). (q\<lparr>Y := Y (Max_pt db) - Y q + Y (Min_pt db)\<rparr>, db))"

definition HFlipPt :: "FPoint \<times> FRect \<Rightarrow> FPoint \<times> FRect" where
  "HFlipPt = (\<lambda>(q, db). (q\<lparr>X := X (Max_pt db) - X q + X (Min_pt db)\<rparr>, db))"

definition Flip :: "bool \<Rightarrow> Drawing \<Rightarrow> error + Drawing" where
  "Flip vert drawing =
     (case Bounds drawing of
        Inl err \<Rightarrow> Inl err
      | Inr db \<Rightarrow>
          if vert then Inr (fst (Traverse None (Some VFlipPt) db drawing))
          else Inr (fst (Traverse None (Some HFlipPt) db drawing)))"

definition ToRadians :: "real \<Rightarrow> real" where
  "ToRadians degrees = degrees * (pi / 180)"

definition PointFromTheta :: "FPoint \<Rightarrow> real \<Rightarrow> real \<Rightarrow> FPoint" where
  "PointFromTheta p0 theta len =
     \<lparr>X = len * cos (ToRadians theta) + X p0, Y = len * sin (ToRadians theta) + Y p0\<rparr>"

subsection \<open>Package lsys: the turtle interpreter\<close>

record StackItem =
  Point :: FPoint
  Theta :: real

text \<open>
  The loop of \<^verbatim>\<open>DrawLSys\<close> over the runes of \<^verbatim>\<open>lSys\<close>, with its local variables
  \<^verbatim>\<open>drw\<close>, \<^verbatim>\<open>stack\<close>, \<^verbatim>\<open>p\<close> and \<^verbatim>\<open>theta\<close>; it returns their final values.  At \<^verbatim>\<open>']'\<close>
  the read \<^verbatim>\<open>stack[n]\<close> with \<^verbatim>\<open>n = len(stack) - 1 = -1\<close> panics.  A rune outside the six
  cases falls through the \<^verbatim>\<open>switch\<close>.
\<close>

fun DrawLSys_loop ::
  "real \<Rightarrow> RGBA \<Rightarrow> bool \<Rightarrow> string \<Rightarrow> Drawing \<Rightarrow> StackItem list \<Rightarrow> FPoint \<Rightarrow> real
     \<Rightarrow> error + (Drawing \<times> StackItem list \<times> FPoint \<times> real)" where
  "DrawLSys_loop angle color onePath [] drw stack p theta = Inr (drw, stack, p, theta)"
| "DrawLSys_loop angle color onePath (v # lSys) drw stack p theta =
     (if v = CHR ''F'' then
        (let p = PointFromTheta p theta 1 in
         case LineTo p drw of
           Inl err \<Rightarrow> Inl err
         | Inr drw \<Rightarrow> DrawLSys_loop angle color onePath lSys drw stack p theta)
      else if v = CHR ''-'' then
        DrawLSys_loop angle color onePath lSys drw stack p (theta - angle)
      else if v = CHR ''+'' then
        DrawLSys_loop angle color onePath lSys drw stack p (theta + angle)
      else if v = CHR ''f'' then
        (let p = PointFromTheta p theta 1;
             drw = (if \<not> onePath then MoveTo p color drw else drw)
         in DrawLSys_loop angle color onePath lSys drw stack p theta)
      else if v = CHR ''['' then
        (let se = \<lparr>Point = p, Theta = theta\<rparr>
         in DrawLSys_loop angle color onePath lSys drw (stack @ [se]) p theta)
      else if v = CHR '']'' then
        (let n = int (length stack) - 1 in
         if n < 0 then Inl IndexOutOfRange
         else
           (let se = stack ! nat n;
                p = Point se;
                drw = (if \<not> onePath then MoveTo p color drw else drw);
                theta = Theta se
            in DrawLSys_loop angle color onePath lSys drw (take (nat n) stack) p theta))
      else DrawLSys_loop angle color onePath lSys drw stack p theta)"

text \<open>
  \<^verbatim>\<open>DrawLSys\<close> draws into the drawing it is given: it first moves to the origin, which
  opens a path there, and then runs the loop with an empty stack.
\<close>

definition DrawLSys :: "Drawing \<Rightarrow> string \<Rightarrow> real \<Rightarrow> real \<Rightarrow> RGBA \<Rightarrow> bool \<Rightarrow> error + Drawing" where
  "DrawLSys drw lSys theta angle color onePath =
     (let p = \<lparr>X = 0, Y = 0\<rparr>;
          drw = MoveTo p color drw
      in case DrawLSys_loop angle color onePath lSys drw [] p theta of
           Inl err \<Rightarrow> Inl err
         | Inr (drw, stack, p, theta) \<Rightarrow> Inr drw)"

text \<open>\<^verbatim>\<open>var drw drawing.Drawing\<close>: the zero value, as \<^verbatim>\<open>RenderLsys\<close> passes it.\<close>

definition empty_Drawing :: Drawing where
  "empty_Drawing = \<lparr>Paths = []\<rparr>"

subsection \<open>The rewriter as the specification words it\<close>

text \<open>
  The definitions of this subsection are not translated from the source: they follow the
  description of the rewriter (one pass replaces every symbol by its replacement, the
  passes are iterated), so that \<open>LSys\<close> can be compared with it.  The set of symbols
  that a pass drops is a parameter: the description drops whitespace (\<open>is_whitespace\<close>,
  the six ASCII whitespace characters), the source drops the space character only
  (\<open>is_space\<close>).
\<close>

definition is_space :: "char \<Rightarrow> bool" where
  "is_space v \<longleftrightarrow> v = CHR '' ''"

definition is_whitespace :: "char \<Rightarrow> bool" where
  "is_whitespace v \<longleftrightarrow>
     v = CHR '' '' \<or> v = CHR 0x09 \<or> v = CHR 0x0A \<or> v = CHR 0x0B \<or> v = CHR 0x0C \<or> v = CHR 0x0D"

text \<open>
  What one symbol is replaced by: a control symbol by itself, a dropped symbol by
  nothing, any other symbol by its entry in the rules, if there is one.
\<close>

definition replacement :: "(char \<Rightarrow> bool) \<Rightarrow> rules \<Rightarrow> char \<Rightarrow> string option" where
  "replacement dropped rules v =
     (if control v then Some [v] else if dropped v then Some [] else rules [v])"

text \<open>The symbols of a string that have no replacement, in order.\<close>

definition no_rule :: "(char \<Rightarrow> bool) \<Rightarrow> rules \<Rightarrow> string \<Rightarrow> string" where
  "no_rule dropped rules s = filter (\<lambda>v. replacement dropped rules v = None) s"

fun Rewrite_pass :: "(char \<Rightarrow> bool) \<Rightarrow> rules \<Rightarrow> string \<Rightarrow> string option" where
  "Rewrite_pass dropped rules [] = Some []"
| "Rewrite_pass dropped rules (v # s) =
     (case replacement dropped rules v of
        None \<Rightarrow> None
      | Some r \<Rightarrow> map_option ((@) r) (Rewrite_pass dropped rules s))"

fun Rewrite_iter :: "(char \<Rightarrow> bool) \<Rightarrow> rules \<Rightarrow> nat \<Rightarrow> string \<Rightarrow> string option" where
  "Rewrite_iter dropped rules 0 s = Some s"
| "Rewrite_iter dropped rules (Suc n) s =
     (case Rewrite_pass dropped rules s of
        None \<Rightarrow> None
      | Some ns \<Rightarrow> Rewrite_iter dropped rules n ns)"

definition Rewrite :: "string \<Rightarrow> rules \<Rightarrow> nat \<Rightarrow> string option" where
  "Rewrite axiom rules iterations = Rewrite_iter is_whitespace rules iterations axiom"

text \<open>The result of a call that can fail, if there is one.\<close>

definition result_of :: "error + 'a \<Rightarrow> 'a option" where
  "result_of r = (case r of Inl err \<Rightarrow> None | Inr x \<Rightarrow> Some x)"

subsection \<open>Notions used to state properties of drawings\<close>

text \<open>All points of a drawing, path after path.\<close>

definition points_of :: "Drawing \<Rightarrow> FPoint list" where
  "points_of drawing = concat (map Points (Paths drawing))"

text \<open>The drawing with a function applied to every point, everything else as it is.\<close>

definition map_points :: "(FPoint \<Rightarrow> FPoint) \<Rightarrow> Drawing \<Rightarrow> Drawing" where
  "map_points f drawing =
     drawing\<lparr>Paths := map (\<lambda>pa. pa\<lparr>Points := map f (Points pa)\<rparr>) (Paths drawing)\<rparr>"

text \<open>
  What a transform of the coordinates must leave alone: the paths in their order, each
  with its number of points and its colour.
\<close>

definition frame :: "Drawing \<Rightarrow> (nat \<times> RGBA) list" where
  "frame drawing = map (\<lambda>pa. (length (Points pa), Color pa)) (Paths drawing)"

text \<open>
  The position and heading of the turtle when the loop of \<open>DrawLSys\<close> has gone through a
  string, if it has not failed.
\<close>

definition turtle_of :: "error + (Drawing \<times> StackItem list \<times> FPoint \<times> real) \<Rightarrow> (FPoint \<times> real) option" where
  "turtle_of r = (case r of Inl err \<Rightarrow> None | Inr (drw, stack, p, theta) \<Rightarrow> Some (p, theta))"

section \<open>The rewriter\<close>

subsection \<open>The source agrees with the iterated pass that drops spaces\<close>

lemma result_of_simps [simp]: "result_of (Inl e) = None" "result_of (Inr x) = Some x"
  by (simp_all add: result_of_def)

lemma Rewrite_pass_None_iff:
  "Rewrite_pass dropped rules s = None \<longleftrightarrow> no_rule dropped rules s \<noteq> []"
  by (induction s) (auto simp: no_rule_def split: option.splits)

lemma map_option_append:
  "map_option ((@) (xs @ ys)) r = map_option ((@) xs) (map_option ((@) ys) r)"
  by (cases r) simp_all

lemma LSys_scan_result:
  "result_of (LSys_scan rules ns s) = map_option ((@) ns) (Rewrite_pass is_space rules s)"
proof (induction s arbitrary: ns)
  case Nil
  then show ?case by simp
next
  case (Cons v s)
  show ?case
  proof (cases "replacement is_space rules v")
    case None
    then show ?thesis
      by (simp add: replacement_def is_space_def split: if_splits)
  next
    case (Some r)
    then have "LSys_scan rules ns (v # s) = LSys_scan rules (ns @ r) s"
      by (auto simp: replacement_def is_space_def split: if_splits)
    with Some Cons.IH [of "ns @ r"] show ?thesis
      by (cases "Rewrite_pass is_space rules s") simp_all
  qed
qed

lemma LSys_scan_error:
  "LSys_scan rules ns s = Inl err \<Longrightarrow>
   \<exists>v \<in> set s. err = ErrorString (''no rule for: '' @ [v]) \<and> replacement is_space rules v = None"
proof (induction s arbitrary: ns)
  case Nil
  then show ?case by simp
next
  case (Cons v s)
  show ?case
  proof (cases "replacement is_space rules v")
    case None
    then have "\<not> control v" "v \<noteq> CHR '' ''" "rules [v] = None"
      by (simp_all add: replacement_def is_space_def split: if_splits)
    with Cons.prems have "err = ErrorString (''no rule for: '' @ [v])" by simp
    with None show ?thesis by simp
  next
    case (Some r)
    then have "LSys_scan rules ns (v # s) = LSys_scan rules (ns @ r) s"
      by (auto simp: replacement_def is_space_def split: if_splits)
    with Cons.prems have "LSys_scan rules (ns @ r) s = Inl err" by simp
    from Cons.IH [OF this] show ?thesis by auto
  qed
qed

lemma LSys_loop_result:
  "nat (level - i) = n \<Longrightarrow>
   result_of (LSys_loop rules level i s) = Rewrite_iter is_space rules n s"
proof (induction n arbitrary: i s)
  case 0
  then show ?case by (simp add: LSys_loop.simps)
next
  case (Suc n)
  then have lt: "i < level" and n: "nat (level - (i + 1)) = n" by linarith+
  show ?case
  proof (cases "LSys_scan rules [] s")
    case (Inl err)
    with LSys_scan_result [of rules "[]" s] have "Rewrite_pass is_space rules s = None"
      by simp
    with Inl lt show ?thesis by (simp add: LSys_loop.simps [of rules level i s])
  next
    case (Inr ns)
    with LSys_scan_result [of rules "[]" s] have "Rewrite_pass is_space rules s = Some ns"
      by (cases "Rewrite_pass is_space rules s") simp_all
    with Inr lt Suc.IH [OF n, of ns] show ?thesis
      by (simp add: LSys_loop.simps [of rules level i s])
  qed
qed

lemma LSys_loop_error:
  "nat (level - i) = n \<Longrightarrow> LSys_loop rules level i s = Inl err \<Longrightarrow>
   \<exists>v. err = ErrorString (''no rule for: '' @ [v]) \<and> replacement is_space rules v = None"
proof (induction n arbitrary: i s)
  case 0
  then show ?case by (simp add: LSys_loop.simps)
next
  case (Suc n)
  then have lt: "i < level" and n: "nat (level - (i + 1)) = n" by linarith+
  show ?case
  proof (cases "LSys_scan rules [] s")
    case (Inl e)
    with lt Suc.prems(2) have "e = err" by (simp add: LSys_loop.simps [of rules level i s])
    with Inl LSys_scan_error [of rules "[]" s err] show ?thesis by blast
  next
    case (Inr ns)
    with lt Suc.prems(2) have "LSys_loop rules level (i + 1) ns = Inl err"
      by (simp add: LSys_loop.simps [of rules level i s])
    with Suc.IH [OF n] show ?thesis .
  qed
qed

lemma Rewrite_iter_NoneD:
  "Rewrite_iter dropped rules n s = None \<Longrightarrow>
   \<exists>k s'. k < n \<and> Rewrite_iter dropped rules k s = Some s' \<and> no_rule dropped rules s' \<noteq> []"
proof (induction n arbitrary: s)
  case 0
  then show ?case by simp
next
  case (Suc n)
  show ?case
  proof (cases "Rewrite_pass dropped rules s")
    case None
    then have "no_rule dropped rules s \<noteq> []" by (simp add: Rewrite_pass_None_iff)
    then have "0 < Suc n \<and> Rewrite_iter dropped rules 0 s = Some s \<and> no_rule dropped rules s \<noteq> []"
      by simp
    then show ?thesis by blast
  next
    case (Some ns)
    with Suc.prems have "Rewrite_iter dropped rules n ns = None" by simp
    from Suc.IH [OF this] obtain k s' where
      k: "k < n" "Rewrite_iter dropped rules k ns = Some s'" "no_rule dropped rules s' \<noteq> []"
      by blast
    from k(1) have "Suc k < Suc n" by simp
    moreover from k(2) Some have "Rewrite_iter dropped rules (Suc k) s = Some s'" by simp
    ultimately show ?thesis using k(3) by blast
  qed
qed

lemma Rewrite_iter_NoneI:
  "k < n \<Longrightarrow> Rewrite_iter dropped rules k s = Some s' \<Longrightarrow> no_rule dropped rules s' \<noteq> [] \<Longrightarrow>
   Rewrite_iter dropped rules n s = None"
proof (induction n arbitrary: k s)
  case 0
  then show ?case by simp
next
  case (Suc n)
  show ?case
  proof (cases k)
    case 0
    with Suc.prems have "no_rule dropped rules s \<noteq> []" by simp
    then have "Rewrite_pass dropped rules s = None" by (simp add: Rewrite_pass_None_iff)
    then show ?thesis by simp
  next
    case (Suc j)
    show ?thesis
    proof (cases "Rewrite_pass dropped rules s")
      case None
      then show ?thesis by simp
    next
      case (Some ns)
      with Suc.prems \<open>k = Suc j\<close> have "j < n" "Rewrite_iter dropped rules j ns = Some s'"
        by simp_all
      from Suc.IH [OF this Suc.prems(3)] Some show ?thesis by simp
    qed
  qed
qed

lemma Rewrite_iter_None_iff:
  "Rewrite_iter dropped rules n s = None \<longleftrightarrow>
   (\<exists>k s'. k < n \<and> Rewrite_iter dropped rules k s = Some s' \<and> no_rule dropped rules s' \<noteq> [])"
  using Rewrite_iter_NoneD Rewrite_iter_NoneI by blast

subsection \<open>What a call of \<open>LSys\<close> returns\<close>

text \<open>
  C3 (as amended).  For every axiom, rule mapping and iteration count, \<open>LSys\<close> returns
  what \<open>nat level\<close> passes return, where one pass goes through the current string symbol
  by symbol, keeps the control symbols \<open>-\<close>, \<open>+\<close>, \<open>[\<close>, \<open>]\<close>, drops the space character
  (and no other whitespace character), and replaces every other symbol by its string in
  the rules, inserted as it is; the call has no result when a pass meets a symbol without
  a rule.  With zero iterations the axiom is returned unchanged.
\<close>

theorem LSys_rewrites:
  "result_of (LSys axiom rules level) = Rewrite_iter is_space rules (nat level) axiom \<and>
   LSys axiom rules 0 = Inr axiom"
  using LSys_loop_result [of level 0 "nat level" rules axiom]
  by (simp add: LSys_def LSys_loop.simps [of rules 0 0])

theorem LSys_rewrites_witness:
  "result_of (LSys ''F'' [''F'' \<mapsto> ''F+F--F+F''] 2) =
     Some ''F+F--F+F+F+F--F+F--F+F--F+F+F+F--F+F'' \<and>
   LSys ''F'' [''F'' \<mapsto> ''F+F--F+F''] 0 = Inr ''F''"
  using LSys_rewrites [of "''F''" "[''F'' \<mapsto> ''F+F--F+F'']" 2]
    LSys_rewrites [of "''F''" "[''F'' \<mapsto> ''F+F--F+F'']" 0]
  by (simp add: numeral_2_eq_2 replacement_def control_def is_space_def)

text \<open>
  The claim as stated fails on a tab: it is a whitespace character, the description drops
  it, and the source looks it up in the rules and inserts its replacement.
\<close>

theorem LSys_whitespace_counterexample:
  "LSys [CHR 0x09] [[CHR 0x09] \<mapsto> ''F''] 1 = Inr ''F'' \<and>
   Rewrite [CHR 0x09] [[CHR 0x09] \<mapsto> ''F''] 1 = Some []"
  by (simp add: LSys_def LSys_loop.simps control_def Rewrite_def replacement_def is_whitespace_def)

text \<open>
  C4 (as amended).  \<open>LSys\<close> fails if and only if, after some number \<open>k < level\<close> of passes
  that went through, the current string holds a symbol that is not a control symbol, is
  not the space character and has no entry in the rules.  The failure is the error
  \<^verbatim>\<open>no rule for: v\<close> for such a symbol \<open>v\<close>, and no result string comes with it.
\<close>

theorem LSys_fails_iff:
  "((\<exists>err. LSys axiom rules level = Inl err) \<longleftrightarrow>
      (\<exists>k s. int k < level \<and> Rewrite_iter is_space rules k axiom = Some s \<and>
             no_rule is_space rules s \<noteq> [])) \<and>
   (\<forall>err. LSys axiom rules level = Inl err \<longrightarrow>
      (\<exists>v. err = ErrorString (''no rule for: '' @ [v]) \<and>
           \<not> control v \<and> v \<noteq> CHR '' '' \<and> rules [v] = None))"
proof
  have "(\<exists>err. LSys axiom rules level = Inl err) \<longleftrightarrow> result_of (LSys axiom rules level) = None"
    by (cases "LSys axiom rules level") simp_all
  also have "\<dots> \<longleftrightarrow> Rewrite_iter is_space rules (nat level) axiom = None"
    using LSys_loop_result [of level 0 "nat level" rules axiom] by (simp add: LSys_def)
  also have "\<dots> \<longleftrightarrow> (\<exists>k s. k < nat level \<and> Rewrite_iter is_space rules k axiom = Some s \<and>
             no_rule is_space rules s \<noteq> [])"
    by (rule Rewrite_iter_None_iff)
  also have "\<dots> \<longleftrightarrow> (\<exists>k s. int k < level \<and> Rewrite_iter is_space rules k axiom = Some s \<and>
             no_rule is_space rules s \<noteq> [])"
    by (simp add: zless_nat_eq_int_zless)
  finally show "(\<exists>err. LSys axiom rules level = Inl err) \<longleftrightarrow>
      (\<exists>k s. int k < level \<and> Rewrite_iter is_space rules k axiom = Some s \<and>
             no_rule is_space rules s \<noteq> [])" .
next
  show "\<forall>err. LSys axiom rules level = Inl err \<longrightarrow>
      (\<exists>v. err = ErrorString (''no rule for: '' @ [v]) \<and>
           \<not> control v \<and> v \<noteq> CHR '' '' \<and> rules [v] = None)"
    using LSys_loop_error [of level 0 "nat level" rules axiom]
    by (auto simp: LSys_def replacement_def is_space_def split: if_splits)
qed

theorem LSys_fails_iff_witness:
  "LSys ''X'' Map.empty 1 = Inl (ErrorString ''no rule for: X'')"
proof -
  have "int 0 < 1 \<and> Rewrite_iter is_space Map.empty 0 ''X'' = Some ''X'' \<and>
        no_rule is_space Map.empty ''X'' \<noteq> []"
    by (simp add: no_rule_def replacement_def control_def is_space_def)
  then have "\<exists>k s. int k < 1 \<and> Rewrite_iter is_space Map.empty k ''X'' = Some s \<and>
        no_rule is_space Map.empty s \<noteq> []"
    by blast
  with LSys_fails_iff [of "''X''" Map.empty 1] obtain err where "LSys ''X'' Map.empty 1 = Inl err"
    by blast
  then show ?thesis
    by (simp add: LSys_def LSys_loop.simps control_def)
qed

text \<open>
  The claim as stated fails on a line feed: it is a whitespace character, so the claim
  does not count it as a symbol in need of a rule, and the source fails on it when the
  rules have no entry for it.
\<close>

theorem LSys_fails_counterexample:
  "LSys (''F'' @ [CHR 0x0A] @ ''F'') [''F'' \<mapsto> ''FF''] 1 =
     Inl (ErrorString (''no rule for: '' @ [CHR 0x0A])) \<and>
   no_rule is_whitespace [''F'' \<mapsto> ''FF''] (''F'' @ [CHR 0x0A] @ ''F'') = [] \<and>
   Rewrite (''F'' @ [CHR 0x0A] @ ''F'') [''F'' \<mapsto> ''FF''] 1 = Some ''FFFF''"
  by (simp add: LSys_def LSys_loop.simps control_def Rewrite_def replacement_def
      is_whitespace_def no_rule_def)

section \<open>The turtle interpreter\<close>

subsection \<open>Moving and drawing\<close>

lemma LineTo_eq:
  "LineTo q drw =
     (if Paths drw = [] then Inl IndexOutOfRange
      else Inr (drw\<lparr>Paths := butlast (Paths drw) @
                  [(last (Paths drw))\<lparr>Points := Points (last (Paths drw)) @ [q]\<rparr>]\<rparr>))"
proof (cases "Paths drw" rule: rev_cases)
  case Nil
  then show ?thesis by (simp add: LineTo_def)
next
  case (snoc pas pa)
  have "nat (int (length (pas @ [pa])) - 1) = length pas" by simp
  with snoc show ?thesis by (simp add: LineTo_def Let_def)
qed

lemma LineTo_length:
  "LineTo q drw = Inr drw' \<Longrightarrow> length (Paths drw') = length (Paths drw)"
  by (auto simp: LineTo_eq split: if_splits)

lemma LineTo_first:
  "LineTo q drw = Inr drw' \<Longrightarrow> Paths drw = pa # pas \<Longrightarrow> Points pa = q0 # qs \<Longrightarrow>
   \<exists>pa' pas' qs'. Paths drw' = pa' # pas' \<and> Points pa' = q0 # qs'"
  by (cases pas rule: rev_cases) (auto simp: LineTo_eq)

lemma MoveTo_first:
  "Paths drw = pa # pas \<Longrightarrow> \<exists>pas'. Paths (MoveTo q color drw) = pa # pas'"
  by (simp add: MoveTo_def)

subsection \<open>The loop\<close>

lemma DrawLSys_loop_append:
  "DrawLSys_loop angle color onePath (s1 @ s2) drw stack p theta =
     (case DrawLSys_loop angle color onePath s1 drw stack p theta of
        Inl err \<Rightarrow> Inl err
      | Inr (drw', stack', p', theta') \<Rightarrow> DrawLSys_loop angle color onePath s2 drw' stack' p' theta')"
  by (induction s1 arbitrary: drw stack p theta) (simp_all add: Let_def split: sum.splits)

lemma DrawLSys_loop_onePath:
  "DrawLSys_loop angle color True lSys drw stack p theta = Inr (drw', stack', p', theta') \<Longrightarrow>
   length (Paths drw') = length (Paths drw)"
proof (induction lSys arbitrary: drw stack p theta)
  case Nil
  then show ?case by simp
next
  case (Cons v lSys)
  then show ?case
    by (auto simp: Let_def split: if_splits sum.splits dest!: LineTo_length)
qed

lemma DrawLSys_loop_first:
  "DrawLSys_loop angle color onePath lSys drw stack p theta = Inr (drw', stack', p', theta') \<Longrightarrow>
   Paths drw = pa # pas \<Longrightarrow> Points pa = q0 # qs \<Longrightarrow>
   \<exists>pa' pas' qs'. Paths drw' = pa' # pas' \<and> Points pa' = q0 # qs'"
proof (induction lSys arbitrary: drw stack p theta pa pas qs)
  case Nil
  then show ?case by simp
next
  case (Cons v lSys)
  let ?p1 = "PointFromTheta p theta 1"
  consider (F) "v = CHR ''F''" | (minus) "v = CHR ''-''" | (plus) "v = CHR ''+''"
    | (f) "v = CHR ''f''" | (push) "v = CHR ''[''" | (pop) "v = CHR '']''"
    | (other) "v \<noteq> CHR ''F''" "v \<noteq> CHR ''-''" "v \<noteq> CHR ''+''" "v \<noteq> CHR ''f''"
        "v \<noteq> CHR ''[''" "v \<noteq> CHR '']''"
    by blast
  then show ?case
  proof cases
    case F
    with Cons.prems(1) obtain drw1 where
      l: "LineTo ?p1 drw = Inr drw1" and
      r: "DrawLSys_loop angle color onePath lSys drw1 stack ?p1 theta = Inr (drw', stack', p', theta')"
      by (auto simp: Let_def split: sum.splits)
    from LineTo_first [OF l Cons.prems(2,3)] obtain pa1 pas1 qs1 where
      "Paths drw1 = pa1 # pas1" "Points pa1 = q0 # qs1" by blast
    from Cons.IH [OF r this] show ?thesis .
  next
    case minus
    with Cons.prems(1) have
      "DrawLSys_loop angle color onePath lSys drw stack p (theta - angle) = Inr (drw', stack', p', theta')"
      by simp
    from Cons.IH [OF this Cons.prems(2,3)] show ?thesis .
  next
    case plus
    with Cons.prems(1) have
      "DrawLSys_loop angle color onePath lSys drw stack p (theta + angle) = Inr (drw', stack', p', theta')"
      by simp
    from Cons.IH [OF this Cons.prems(2,3)] show ?thesis .
  next
    case f
    let ?drw1 = "if \<not> onePath then MoveTo ?p1 color drw else drw"
    from f Cons.prems(1) have
      r: "DrawLSys_loop angle color onePath lSys ?drw1 stack ?p1 theta = Inr (drw', stack', p', theta')"
      by (simp add: Let_def)
    from Cons.prems(2) obtain pas1 where "Paths ?drw1 = pa # pas1"
      by (cases onePath) (simp_all add: MoveTo_def)
    from Cons.IH [OF r this Cons.prems(3)] show ?thesis .
  next
    case push
    with Cons.prems(1) have
      "DrawLSys_loop angle color onePath lSys drw (stack @ [\<lparr>Point = p, Theta = theta\<rparr>]) p theta
         = Inr (drw', stack', p', theta')"
      by (simp add: Let_def)
    from Cons.IH [OF this Cons.prems(2,3)] show ?thesis .
  next
    case pop
    let ?n = "nat (int (length stack) - 1)"
    let ?se = "stack ! ?n"
    let ?drw1 = "if \<not> onePath then MoveTo (Point ?se) color drw else drw"
    from pop Cons.prems(1) have
      r: "DrawLSys_loop angle color onePath lSys ?drw1 (take ?n stack) (Point ?se) (Theta ?se)
            = Inr (drw', stack', p', theta')"
      by (simp add: Let_def split: if_splits)
    from Cons.prems(2) obtain pas1 where "Paths ?drw1 = pa # pas1"
      by (cases onePath) (simp_all add: MoveTo_def)
    from Cons.IH [OF r this Cons.prems(3)] show ?thesis .
  next
    case other
    with Cons.prems(1) have
      "DrawLSys_loop angle color onePath lSys drw stack p theta = Inr (drw', stack', p', theta')"
      by simp
    from Cons.IH [OF this Cons.prems(2,3)] show ?thesis .
  qed
qed

subsection \<open>What an interpretation returns\<close>

text \<open>
  C2.  When the interpreter meets \<open>]\<close> while the stack is empty, the interpretation
  fails: the read of the top of the stack is out of range, and the caller gets the
  failure and no drawing.  The stack is empty at the start, so the string \<open>]\<close> fails; and
  it fails in the same way after any prefix that leaves the stack empty, whatever follows.
\<close>

theorem DrawLSys_pop_empty_stack:
  "DrawLSys drw '']'' theta angle color onePath = Inl IndexOutOfRange \<and>
   (DrawLSys_loop angle color onePath pre (MoveTo \<lparr>X = 0, Y = 0\<rparr> color drw) [] \<lparr>X = 0, Y = 0\<rparr> theta
      = Inr (drw', [], p', theta') \<longrightarrow>
    DrawLSys drw (pre @ CHR '']'' # rest) theta angle color onePath = Inl IndexOutOfRange)"
  by (simp add: DrawLSys_def DrawLSys_loop_append)

theorem DrawLSys_pop_empty_stack_witness:
  "DrawLSys empty_Drawing '']'' 0 90 (RGBA 0 0 0 255) False = Inl IndexOutOfRange \<and>
   DrawLSys empty_Drawing ''[-]]F'' 0 90 (RGBA 0 0 0 255) True = Inl IndexOutOfRange"
  using DrawLSys_pop_empty_stack [where drw = empty_Drawing and theta = 0 and angle = 90
      and color = "RGBA 0 0 0 255" and onePath = False]
    DrawLSys_pop_empty_stack [where drw = empty_Drawing and theta = 0 and angle = 90
      and color = "RGBA 0 0 0 255" and onePath = True and pre = "''[-]''" and rest = "''F''"
      and drw' = "MoveTo \<lparr>X = 0, Y = 0\<rparr> (RGBA 0 0 0 255) empty_Drawing"
      and p' = "\<lparr>X = 0, Y = 0\<rparr>" and theta' = 0]
  by (simp add: Let_def)

text \<open>
  C5.  Interpreting \<open>F\<close> from the empty drawing with start heading 0, any turn angle and
  \<open>onePath = false\<close> gives a drawing of exactly one path with exactly the two points
  \<open>(0,0)\<close> and \<open>(1,0)\<close>.  For every string, the first path is opened at the origin before
  any symbol is read (the empty string gives just that path), and the first point of the
  first path of every drawing that an interpretation returns is the origin.
\<close>

theorem DrawLSys_F_and_origin:
  "DrawLSys empty_Drawing ''F'' 0 angle color False =
     Inr \<lparr>Paths = [\<lparr>Points = [\<lparr>X = 0, Y = 0\<rparr>, \<lparr>X = 1, Y = 0\<rparr>], Color = color\<rparr>]\<rparr> \<and>
   DrawLSys empty_Drawing [] theta angle color onePath =
     Inr \<lparr>Paths = [\<lparr>Points = [\<lparr>X = 0, Y = 0\<rparr>], Color = color\<rparr>]\<rparr> \<and>
   (DrawLSys empty_Drawing lSys theta angle color onePath = Inr d \<longrightarrow>
      (\<exists>pa pas qs. Paths d = pa # pas \<and> Points pa = \<lparr>X = 0, Y = 0\<rparr> # qs))"
proof (intro conjI impI)
  show "DrawLSys empty_Drawing ''F'' 0 angle color False =
     Inr \<lparr>Paths = [\<lparr>Points = [\<lparr>X = 0, Y = 0\<rparr>, \<lparr>X = 1, Y = 0\<rparr>], Color = color\<rparr>]\<rparr>"
    by (simp add: DrawLSys_def empty_Drawing_def MoveTo_def LineTo_def PointFromTheta_def
        ToRadians_def Let_def)
  show "DrawLSys empty_Drawing [] theta angle color onePath =
     Inr \<lparr>Paths = [\<lparr>Points = [\<lparr>X = 0, Y = 0\<rparr>], Color = color\<rparr>]\<rparr>"
    by (simp add: DrawLSys_def empty_Drawing_def MoveTo_def Let_def)
next
  let ?o = "\<lparr>X = 0, Y = 0\<rparr>"
  assume "DrawLSys empty_Drawing lSys theta angle color onePath = Inr d"
  then obtain stack' p' theta' where
    r: "DrawLSys_loop angle color onePath lSys (MoveTo ?o color empty_Drawing) [] ?o theta
          = Inr (d, stack', p', theta')"
    by (auto simp: DrawLSys_def Let_def split: sum.splits)
  have "Paths (MoveTo ?o color empty_Drawing) = \<lparr>Points = [?o], Color = color\<rparr> # []"
    by (simp add: MoveTo_def empty_Drawing_def)
  from DrawLSys_loop_first [OF r this] show "\<exists>pa pas qs. Paths d = pa # pas \<and> Points pa = ?o # qs"
    by simp
qed

theorem DrawLSys_F_and_origin_witness:
  "DrawLSys empty_Drawing ''f'' 0 60 (RGBA 0 0 0 255) False =
     Inr \<lparr>Paths = [\<lparr>Points = [\<lparr>X = 0, Y = 0\<rparr>], Color = RGBA 0 0 0 255\<rparr>,
                   \<lparr>Points = [\<lparr>X = 1, Y = 0\<rparr>], Color = RGBA 0 0 0 255\<rparr>]\<rparr> \<and>
   (\<exists>pa pas qs. Paths \<lparr>Paths = [\<lparr>Points = [\<lparr>X = 0, Y = 0\<rparr>], Color = RGBA 0 0 0 255\<rparr>,
                   \<lparr>Points = [\<lparr>X = 1, Y = 0\<rparr>], Color = RGBA 0 0 0 255\<rparr>]\<rparr> = pa # pas \<and>
        Points pa = \<lparr>X = 0, Y = 0\<rparr> # qs)"
proof -
  let ?d = "\<lparr>Paths = [\<lparr>Points = [\<lparr>X = 0, Y = 0\<rparr>], Color = RGBA 0 0 0 255\<rparr>,
                   \<lparr>Points = [\<lparr>X = 1, Y = 0\<rparr>], Color = RGBA 0 0 0 255\<rparr>]\<rparr>"
  have run: "DrawLSys empty_Drawing ''f'' 0 60 (RGBA 0 0 0 255) False = Inr ?d"
    by (simp add: DrawLSys_def empty_Drawing_def MoveTo_def PointFromTheta_def
        ToRadians_def Let_def)
  with DrawLSys_F_and_origin [where angle = 60 and color = "RGBA 0 0 0 255" and theta = 0
      and onePath = False and lSys = "''f''" and d = ?d]
  show ?thesis by blast
qed

text \<open>
  C6.  For the string \<open>F[+F]F\<close> with \<open>onePath = false\<close>: when \<open>]\<close> has been processed,
  the position and the heading of the turtle are the values they had just before the
  matching \<open>[\<close> was processed, that is, after the first \<open>F\<close>.  They are the very values
  that were pushed, nothing is computed in between; the rest of the string is then
  interpreted from that state.
\<close>

theorem DrawLSys_branch_restores:
  "turtle_of (DrawLSys_loop angle color False ''F[+F]''
       (MoveTo \<lparr>X = 0, Y = 0\<rparr> color drw) [] \<lparr>X = 0, Y = 0\<rparr> theta) =
   turtle_of (DrawLSys_loop angle color False ''F''
       (MoveTo \<lparr>X = 0, Y = 0\<rparr> color drw) [] \<lparr>X = 0, Y = 0\<rparr> theta) \<and>
   turtle_of (DrawLSys_loop angle color False ''F''
       (MoveTo \<lparr>X = 0, Y = 0\<rparr> color drw) [] \<lparr>X = 0, Y = 0\<rparr> theta) =
     Some (PointFromTheta \<lparr>X = 0, Y = 0\<rparr> theta 1, theta) \<and>
   DrawLSys drw ''F[+F]F'' theta angle color False =
     (case DrawLSys_loop angle color False ''F[+F]''
             (MoveTo \<lparr>X = 0, Y = 0\<rparr> color drw) [] \<lparr>X = 0, Y = 0\<rparr> theta of
        Inl err \<Rightarrow> Inl err
      | Inr (drw', stack', p', theta') \<Rightarrow>
          map_sum id fst (DrawLSys_loop angle color False ''F'' drw' stack' p' theta'))"
proof (intro conjI)
  let ?o = "\<lparr>X = 0, Y = 0\<rparr>"
  let ?d0 = "MoveTo ?o color drw"
  have ne: "Paths ?d0 \<noteq> []" by (simp add: MoveTo_def)
  show "turtle_of (DrawLSys_loop angle color False ''F'' ?d0 [] ?o theta) =
     Some (PointFromTheta ?o theta 1, theta)"
    using ne by (simp add: turtle_of_def Let_def LineTo_eq)
  show "turtle_of (DrawLSys_loop angle color False ''F[+F]'' ?d0 [] ?o theta) =
     turtle_of (DrawLSys_loop angle color False ''F'' ?d0 [] ?o theta)"
    using ne by (simp add: turtle_of_def Let_def LineTo_eq MoveTo_def)
  have "''F[+F]F'' = ''F[+F]'' @ ''F''" by simp
  then show "DrawLSys drw ''F[+F]F'' theta angle color False =
     (case DrawLSys_loop angle color False ''F[+F]'' ?d0 [] ?o theta of
        Inl err \<Rightarrow> Inl err
      | Inr (drw', stack', p', theta') \<Rightarrow>
          map_sum id fst (DrawLSys_loop angle color False ''F'' drw' stack' p' theta'))"
    unfolding DrawLSys_def Let_def
    by (simp only: DrawLSys_loop_append) (auto split: sum.splits)
qed

theorem DrawLSys_branch_restores_witness:
  "turtle_of (DrawLSys_loop 90 (RGBA 0 0 0 255) False ''F[+F]''
       (MoveTo \<lparr>X = 0, Y = 0\<rparr> (RGBA 0 0 0 255) empty_Drawing) [] \<lparr>X = 0, Y = 0\<rparr> 0) =
     Some (\<lparr>X = 1, Y = 0\<rparr>, 0)"
  using DrawLSys_branch_restores [where angle = 90 and color = "RGBA 0 0 0 255"
      and drw = empty_Drawing and theta = 0]
  by (simp add: PointFromTheta_def ToRadians_def)

text \<open>
  C7.  With \<open>onePath = true\<close>, an interpretation that succeeds adds exactly one path to
  the drawing it is given: the one opened at the origin.  Neither \<open>f\<close> nor \<open>]\<close> opens a
  path, so from the empty drawing the result has exactly one path, which may hold jumps.
\<close>

theorem DrawLSys_onePath:
  "DrawLSys drw lSys theta angle color True = Inr d \<Longrightarrow>
   length (Paths d) = length (Paths drw) + 1 \<and>
   (drw = empty_Drawing \<longrightarrow> length (Paths d) = 1)"
  by (auto simp: DrawLSys_def Let_def MoveTo_def empty_Drawing_def split: sum.splits
      dest!: DrawLSys_loop_onePath)

theorem DrawLSys_onePath_witness:
  "DrawLSys empty_Drawing ''f[f]F'' 0 0 (RGBA 0 0 0 255) True =
     Inr \<lparr>Paths = [\<lparr>Points = [\<lparr>X = 0, Y = 0\<rparr>, \<lparr>X = 2, Y = 0\<rparr>], Color = RGBA 0 0 0 255\<rparr>]\<rparr> \<and>
   length (Paths \<lparr>Paths = [\<lparr>Points = [\<lparr>X = 0, Y = 0\<rparr>, \<lparr>X = 2, Y = 0\<rparr>], Color = RGBA 0 0 0 255\<rparr>]\<rparr>) = 1"
proof -
  let ?d = "\<lparr>Paths = [\<lparr>Points = [\<lparr>X = 0, Y = 0\<rparr>, \<lparr>X = 2, Y = 0\<rparr>], Color = RGBA 0 0 0 255\<rparr>]\<rparr>"
  have run: "DrawLSys empty_Drawing ''f[f]F'' 0 0 (RGBA 0 0 0 255) True = Inr ?d"
    by (simp add: DrawLSys_def empty_Drawing_def MoveTo_def LineTo_def PointFromTheta_def
        ToRadians_def Let_def)
  from DrawLSys_onePath [OF run] run show ?thesis by simp
qed

section \<open>Drawings and their transforms\<close>

subsection \<open>Traversals\<close>

lemma Traverse_points_map:
  assumes "\<And>q. snd (f (q, s)) = s"
  shows "Traverse_points (Some f) qs s = (map (\<lambda>q. fst (f (q, s))) qs, s)"
proof (induction qs)
  case Nil
  then show ?case by simp
next
  case (Cons q qs)
  with assms [of q] show ?case by (simp add: case_prod_beta)
qed

lemma Traverse_paths_map:
  assumes "\<And>q. snd (f (q, s)) = s"
  shows "Traverse_paths None (Some f) pas s =
     (map (\<lambda>pa. pa\<lparr>Points := map (\<lambda>q. fst (f (q, s))) (Points pa)\<rparr>) pas, s)"
  by (induction pas) (simp_all add: Traverse_points_map [of f s, OF assms])

lemma Traverse_map:
  assumes "\<And>q. snd (f (q, s)) = s"
  shows "Traverse None (Some f) s d = (map_points (\<lambda>q. fst (f (q, s))) d, s)"
  by (simp add: Traverse_def map_points_def Traverse_paths_map [of f s, OF assms])

lemma frame_map_points: "frame (map_points f d) = frame d"
  by (simp add: frame_def map_points_def comp_def)

subsection \<open>The transforms as maps over the points\<close>

lemma Translate_eq:
  "Translate delta d = map_points (\<lambda>q. \<lparr>X = X q + X delta, Y = Y q + Y delta\<rparr>) d"
proof -
  have "\<And>q. snd (TranslatePt (q, delta)) = delta" by (simp add: TranslatePt_def)
  from Traverse_map [of TranslatePt delta, OF this] show ?thesis
    by (simp add: Translate_def TranslatePt_def)
qed

lemma Scale_eq:
  "Scale scalar d = map_points (\<lambda>q. \<lparr>X = X q * scalar, Y = Y q * scalar\<rparr>) d"
proof -
  have "\<And>q. snd (ScalePt (q, scalar)) = scalar" by (simp add: ScalePt_def)
  from Traverse_map [of ScalePt scalar, OF this] show ?thesis
    by (simp add: Scale_def ScalePt_def)
qed

lemma VFlip_eq:
  "fst (Traverse None (Some VFlipPt) db d) =
     map_points (\<lambda>q. q\<lparr>Y := Y (Max_pt db) - Y q + Y (Min_pt db)\<rparr>) d"
proof -
  have "\<And>q. snd (VFlipPt (q, db)) = db" by (simp add: VFlipPt_def)
  from Traverse_map [of VFlipPt db, OF this] show ?thesis
    by (simp add: VFlipPt_def)
qed

lemma HFlip_eq:
  "fst (Traverse None (Some HFlipPt) db d) =
     map_points (\<lambda>q. q\<lparr>X := X (Max_pt db) - X q + X (Min_pt db)\<rparr>) d"
proof -
  have "\<And>q. snd (HFlipPt (q, db)) = db" by (simp add: HFlipPt_def)
  from Traverse_map [of HFlipPt db, OF this] show ?thesis
    by (simp add: HFlipPt_def)
qed

subsection \<open>Bounds of a drawing without points\<close>

text \<open>
  C9.  \<open>Bounds\<close> on a drawing without any point (no path at all, or paths that are all
  empty) fails: the read of the first point of the first path is out of range.  No
  rectangle is returned.
\<close>

theorem Bounds_no_points:
  "points_of d = [] \<Longrightarrow> Bounds d = Inl IndexOutOfRange"
  by (auto simp: points_of_def Bounds_def split: list.splits)

theorem Bounds_no_points_witness:
  "Bounds \<lparr>Paths = []\<rparr> = Inl IndexOutOfRange \<and>
   Bounds \<lparr>Paths = [\<lparr>Points = [], Color = RGBA 0 0 0 255\<rparr>,
                    \<lparr>Points = [], Color = RGBA 255 0 0 255\<rparr>]\<rparr> = Inl IndexOutOfRange"
  using Bounds_no_points [of "\<lparr>Paths = []\<rparr>"]
    Bounds_no_points [of "\<lparr>Paths = [\<lparr>Points = [], Color = RGBA 0 0 0 255\<rparr>,
                                      \<lparr>Points = [], Color = RGBA 255 0 0 255\<rparr>]\<rparr>"]
  by (simp add: points_of_def)

subsection \<open>What the transforms leave alone\<close>

lemma Flip_eq:
  "Flip vert d =
     (case Bounds d of
        Inl err \<Rightarrow> Inl err
      | Inr db \<Rightarrow>
          Inr (map_points
                (\<lambda>q. if vert then q\<lparr>Y := Y (Max_pt db) - Y q + Y (Min_pt db)\<rparr>
                     else q\<lparr>X := X (Max_pt db) - X q + X (Min_pt db)\<rparr>) d))"
  by (cases vert) (simp_all add: Flip_def VFlip_eq HFlip_eq split: sum.splits)

text \<open>
  C10.  \<open>Translate\<close>, \<open>Scale\<close> and \<open>Flip\<close> change coordinates only.  Each of them is a map
  of one function over the points of the drawing, every point staying at its place in its
  path and every path at its place in the drawing; so the number of paths, the number of
  points of each path, both orders and the colour of each path are what they were.
\<close>

theorem transforms_keep_frame:
  "Translate delta d = map_points (\<lambda>q. \<lparr>X = X q + X delta, Y = Y q + Y delta\<rparr>) d \<and>
   frame (Translate delta d) = frame d \<and>
   Scale scalar d = map_points (\<lambda>q. \<lparr>X = X q * scalar, Y = Y q * scalar\<rparr>) d \<and>
   frame (Scale scalar d) = frame d \<and>
   Flip vert d =
     (case Bounds d of
        Inl err \<Rightarrow> Inl err
      | Inr db \<Rightarrow>
          Inr (map_points
                (\<lambda>q. if vert then q\<lparr>Y := Y (Max_pt db) - Y q + Y (Min_pt db)\<rparr>
                     else q\<lparr>X := X (Max_pt db) - X q + X (Min_pt db)\<rparr>) d)) \<and>
   (Flip vert d = Inr d' \<longrightarrow> frame d' = frame d)"
proof (intro conjI impI)
  show "Translate delta d = map_points (\<lambda>q. \<lparr>X = X q + X delta, Y = Y q + Y delta\<rparr>) d"
    by (rule Translate_eq)
  show "frame (Translate delta d) = frame d"
    by (simp add: Translate_eq frame_map_points)
  show "Scale scalar d = map_points (\<lambda>q. \<lparr>X = X q * scalar, Y = Y q * scalar\<rparr>) d"
    by (rule Scale_eq)
  show "frame (Scale scalar d) = frame d"
    by (simp add: Scale_eq frame_map_points)
  show "Flip vert d =
     (case Bounds d of
        Inl err \<Rightarrow> Inl err
      | Inr db \<Rightarrow>
          Inr (map_points
                (\<lambda>q. if vert then q\<lparr>Y := Y (Max_pt db) - Y q + Y (Min_pt db)\<rparr>
                     else q\<lparr>X := X (Max_pt db) - X q + X (Min_pt db)\<rparr>) d))"
    by (rule Flip_eq)
next
  assume "Flip vert d = Inr d'"
  then obtain f where "d' = map_points f d"
    by (auto simp: Flip_eq split: sum.splits)
  then show "frame d' = frame d" by (simp add: frame_map_points)
qed

theorem transforms_keep_frame_witness:
  "Flip True \<lparr>Paths = [\<lparr>Points = [\<lparr>X = 0, Y = 0\<rparr>, \<lparr>X = 1, Y = 2\<rparr>], Color = RGBA 255 0 0 255\<rparr>,
                       \<lparr>Points = [\<lparr>X = 3, Y = 1\<rparr>], Color = RGBA 0 0 255 255\<rparr>]\<rparr> =
     Inr \<lparr>Paths = [\<lparr>Points = [\<lparr>X = 0, Y = 2\<rparr>, \<lparr>X = 1, Y = 0\<rparr>], Color = RGBA 255 0 0 255\<rparr>,
                   \<lparr>Points = [\<lparr>X = 3, Y = 1\<rparr>], Color = RGBA 0 0 255 255\<rparr>]\<rparr> \<and>
   frame \<lparr>Paths = [\<lparr>Points = [\<lparr>X = 0, Y = 2\<rparr>, \<lparr>X = 1, Y = 0\<rparr>], Color = RGBA 255 0 0 255\<rparr>,
                   \<lparr>Points = [\<lparr>X = 3, Y = 1\<rparr>], Color = RGBA 0 0 255 255\<rparr>]\<rparr> =
     [(2, RGBA 255 0 0 255), (1, RGBA 0 0 255 255)]"
proof -
  let ?d = "\<lparr>Paths = [\<lparr>Points = [\<lparr>X = 0, Y = 0\<rparr>, \<lparr>X = 1, Y = 2\<rparr>], Color = RGBA 255 0 0 255\<rparr>,
                       \<lparr>Points = [\<lparr>X = 3, Y = 1\<rparr>], Color = RGBA 0 0 255 255\<rparr>]\<rparr>"
  let ?d' = "\<lparr>Paths = [\<lparr>Points = [\<lparr>X = 0, Y = 2\<rparr>, \<lparr>X = 1, Y = 0\<rparr>], Color = RGBA 255 0 0 255\<rparr>,
                   \<lparr>Points = [\<lparr>X = 3, Y = 1\<rparr>], Color = RGBA 0 0 255 255\<rparr>]\<rparr>"
  have run: "Flip True ?d = Inr ?d'"
    by (simp add: Flip_def Bounds_def Traverse_def BoundsPt_def VFlipPt_def)
  from transforms_keep_frame [where vert = True and d = ?d and d' = ?d'] run
  have "frame ?d' = frame ?d" by blast
  with run show ?thesis by (simp add: frame_def)
qed

end
